theory Spec2Isabelle
  imports Main
begin

section \<open>JavaScript values and thrown values\<close>

text \<open>
  The values that cross the boundaries of \<^verbatim>\<open>src/tools/extensions.ts\<close>: parameter
  payloads received over the wire, arguments handed to the execution context, and the
  values a failing context call rejects with.  \<open>JOther s\<close> stands for a value of any
  other kind (a number, an object, an array), given by the text \<open>String(v)\<close> yields.
\<close>

datatype jsval = JUndefined | JNull | JBool bool | JString string | JOther string

text \<open>\<open>String(v)\<close>, which is also what a template literal \<^verbatim>\<open>`${v}`\<close> inserts.\<close>

fun js_String :: "jsval \<Rightarrow> string" where
  "js_String JUndefined = ''undefined''"
| "js_String JNull = ''null''"
| "js_String (JBool b) = (if b then ''true'' else ''false'')"
| "js_String (JString s) = s"
| "js_String (JOther s) = s"

text \<open>
  A thrown value is an \<open>Error\<close> object with its message (\<open>new Error(msg)\<close>), or a
  value that is not an \<open>Error\<close>.  Of the latter, \<open>ThrownVal v\<close> has a string
  conversion, and \<open>ThrownNoString t\<close> has none: \<open>String\<close> of it throws \<open>t\<close>
  (for \<open>Object.create(null)\<close>, a \<open>TypeError\<close>).  A context may reject with any of
  them.
\<close>

datatype thrown = ErrorObj string | ThrownVal jsval | ThrownNoString thrown

text \<open>
  \<^verbatim>\<open>error instanceof Error ? error.message : String(error)\<close> (line 241): the message
  (\<open>Inr\<close>), or what the conversion throws (\<open>Inl\<close>).
\<close>

fun error_message :: "thrown \<Rightarrow> thrown + string" where
  "error_message (ErrorObj m) = Inr m"
| "error_message (ThrownVal v) = Inr (js_String v)"
| "error_message (ThrownNoString t) = Inl t"

text \<open>
  An object with string keys, as an association list; reading a property that is not
  there gives \<open>undefined\<close>.
\<close>

type_synonym jsobject = "(string \<times> jsval) list"

definition get_prop :: "jsobject \<Rightarrow> string \<Rightarrow> jsval" where
  "get_prop obj k = (case map_of obj k of None \<Rightarrow> JUndefined | Some v \<Rightarrow> v)"


section \<open>Tool definitions: categories, annotations, schemas\<close>

text \<open>The two members of \<open>ToolCategory\<close> that the file refers to.\<close>

datatype ToolCategory = EXTENSIONS | DEBUGGING

text \<open>
  The \<open>annotations\<close> object of a tool.  \<open>conditions\<close> is an optional property:
  \<open>None\<close> when the object literal does not have it.
\<close>

record Annotations =
  category :: ToolCategory
  readOnlyHint :: bool
  conditions :: "string list option"

text \<open>
  A schema is declarative data: an association from parameter name to a descriptor.
  \<open>zod.string()\<close> is a required string; \<open>.describe(text)\<close> attaches the
  human-readable description.
\<close>

datatype zod_type = ZodString

record zod_field =
  ztype :: zod_type
  zrequired :: bool
  zdescription :: string

definition zod_string :: zod_field where
  "zod_string = \<lparr>ztype = ZodString, zrequired = True, zdescription = ''''\<rparr>"

definition describe :: "string \<Rightarrow> zod_field \<Rightarrow> zod_field" where
  "describe d f = f\<lparr>zdescription := d\<rparr>"

type_synonym ParameterSchema = "(string \<times> zod_field) list"


section \<open>The response builder\<close>

text \<open>
  Modelled from the spec: the response builder class is not part of
  \<^verbatim>\<open>src/tools/extensions.ts\<close>, which only calls its methods.  It is an ordered,
  append-only sequence of text lines and two flags; a flag may be set any number of
  times and the last write wins.
\<close>

record ResponseBuilder =
  textLines :: "string list"
  listExtensionsFlag :: bool
  includePagesFlag :: bool

definition fresh_builder :: ResponseBuilder where
  "fresh_builder = \<lparr>textLines = [], listExtensionsFlag = False, includePagesFlag = False\<rparr>"

text \<open>
  The finalized, immutable response: the text lines in the order of the calls, and the
  flags for the rendering stage.
\<close>

record Rendered =
  outLines :: "string list"
  outListExtensions :: bool
  outIncludePages :: bool

definition finalize :: "ResponseBuilder \<Rightarrow> Rendered" where
  "finalize b =
     \<lparr>outLines = textLines b,
      outListExtensions = listExtensionsFlag b,
      outIncludePages = includePagesFlag b\<rparr>"


section \<open>The execution context\<close>

text \<open>
  The context is supplied per invocation and implemented outside the file, so it is a
  parameter: four capabilities over a context state \<open>'c\<close> of its own.  Each returns the
  value it resolves to (\<open>Inr\<close>) or the value it throws or rejects with (\<open>Inl\<close>), and
  the context state afterwards.
\<close>

text \<open>The record \<open>getExtension\<close> gives; the file reads its \<open>path\<close> only.\<close>

record Extension =
  ext_id :: string
  ext_path :: string

text \<open>
  What \<open>openExtensionSidepanel\<close> resolves to.  The handlers insert all three fields
  into template literals; \<open>windowId\<close> is not a text, so it is kept as a value and
  rendered by \<open>js_String\<close>.
\<close>

record SidepanelResult =
  result_url :: string
  result_note :: string
  result_windowId :: jsval

record 'c ExecutionContext =
  ctx_installExtension :: "jsval \<Rightarrow> 'c \<Rightarrow> (thrown + string) \<times> 'c"
  ctx_uninstallExtension :: "jsval \<Rightarrow> 'c \<Rightarrow> (thrown + unit) \<times> 'c"
  ctx_getExtension :: "jsval \<Rightarrow> 'c \<Rightarrow> (thrown + Extension option) \<times> 'c"
  ctx_openExtensionSidepanel :: "jsval \<Rightarrow> 'c \<Rightarrow> (thrown + SidepanelResult) \<times> 'c"

text \<open>The calls a handler makes on the context, in order: the side-effect counter.\<close>

datatype ctx_call =
  Call_installExtension jsval
| Call_uninstallExtension jsval
| Call_getExtension jsval
| Call_openExtensionSidepanel jsval

text \<open>
  What a running handler can change: the builder it was given, the state of the context,
  and the log of the context calls made so far.
\<close>

record 'c hstate =
  response :: ResponseBuilder
  cstate :: 'c
  calls :: "ctx_call list"

type_synonym 'c hresult = "(thrown + unit) \<times> 'c hstate"

text \<open>
  Modelled from the spec: section 4.4, the methods of the response builder that the
  handlers call.  \<open>appendResponseLine\<close> adds a line at the end; the setters record
  a flag and change nothing else.
\<close>

definition appendResponseLine :: "string \<Rightarrow> 'c hstate \<Rightarrow> 'c hstate" where
  "appendResponseLine line s =
     s\<lparr>response := (response s)\<lparr>textLines := textLines (response s) @ [line]\<rparr>\<rparr>"

definition setListExtensions :: "'c hstate \<Rightarrow> 'c hstate" where
  "setListExtensions s = s\<lparr>response := (response s)\<lparr>listExtensionsFlag := True\<rparr>\<rparr>"

definition setIncludePages :: "bool \<Rightarrow> 'c hstate \<Rightarrow> 'c hstate" where
  "setIncludePages v s = s\<lparr>response := (response s)\<lparr>includePagesFlag := v\<rparr>\<rparr>"

text \<open>A call on the context: it runs the capability and is recorded in the log.\<close>

definition call_installExtension ::
  "'c ExecutionContext \<Rightarrow> jsval \<Rightarrow> 'c hstate \<Rightarrow> (thrown + string) \<times> 'c hstate" where
  "call_installExtension ctx a s =
     (case ctx_installExtension ctx a (cstate s) of
        (r, c') \<Rightarrow> (r, s\<lparr>cstate := c', calls := calls s @ [Call_installExtension a]\<rparr>))"

definition call_uninstallExtension ::
  "'c ExecutionContext \<Rightarrow> jsval \<Rightarrow> 'c hstate \<Rightarrow> (thrown + unit) \<times> 'c hstate" where
  "call_uninstallExtension ctx a s =
     (case ctx_uninstallExtension ctx a (cstate s) of
        (r, c') \<Rightarrow> (r, s\<lparr>cstate := c', calls := calls s @ [Call_uninstallExtension a]\<rparr>))"

definition call_getExtension ::
  "'c ExecutionContext \<Rightarrow> jsval \<Rightarrow> 'c hstate \<Rightarrow> (thrown + Extension option) \<times> 'c hstate" where
  "call_getExtension ctx a s =
     (case ctx_getExtension ctx a (cstate s) of
        (r, c') \<Rightarrow> (r, s\<lparr>cstate := c', calls := calls s @ [Call_getExtension a]\<rparr>))"

definition call_openExtensionSidepanel ::
  "'c ExecutionContext \<Rightarrow> jsval \<Rightarrow> 'c hstate \<Rightarrow> (thrown + SidepanelResult) \<times> 'c hstate" where
  "call_openExtensionSidepanel ctx a s =
     (case ctx_openExtensionSidepanel ctx a (cstate s) of
        (r, c') \<Rightarrow> (r, s\<lparr>cstate := c', calls := calls s @ [Call_openExtensionSidepanel a]\<rparr>))"

record 'c ToolDefinition =
  name :: string
  description :: string
  annotations :: Annotations
  schema :: ParameterSchema
  handler :: "jsobject \<Rightarrow> 'c ExecutionContext \<Rightarrow> 'c hstate \<Rightarrow> 'c hresult"

text \<open>
  Modelled from the spec: \<open>defineTool\<close> is imported from \<^verbatim>\<open>./ToolDefinition.js\<close>, which
  is not among the sources.  Construction performs no I/O and returns the definition it
  is given.
\<close>

definition defineTool :: "'c ToolDefinition \<Rightarrow> 'c ToolDefinition" where
  "defineTool spec = spec"


section \<open>The handlers of \<^verbatim>\<open>src/tools/extensions.ts\<close>\<close>

text \<open>
  The source holds two versions of the file, one after the other: lines 1 to 117
  (suffix \<open>_A\<close> below) and lines 118 to 253 (suffix \<open>_B\<close>).  The handlers of
  \<open>install_extension\<close>, \<open>uninstall_extension\<close>, \<open>list_extensions\<close> and
  \<open>reload_extension\<close> are the same text in both, so each is embedded once; the two
  handlers of \<open>open_extension_sidepanel\<close> differ.

  A handler is \<open>async (request, response, context) => ...\<close>; its first argument here
  is \<open>request.params\<close>.  An \<open>await\<close> of a rejected call throws, and a throw that
  is not caught ends the handler with what the builder holds at that moment.
\<close>

text \<open>Statements that only update the state, run in the order written.\<close>

definition run_stmts :: "('s \<Rightarrow> 's) list \<Rightarrow> 's \<Rightarrow> 's" where
  "run_stmts stmts s = fold (\<lambda>stmt st. stmt st) stmts s"

text \<open>Lines 24 to 28 and 144 to 148.\<close>

definition installExtension_handler ::
  "jsobject \<Rightarrow> 'c ExecutionContext \<Rightarrow> 'c hstate \<Rightarrow> 'c hresult" where
  "installExtension_handler params ctx s =
     (let path = get_prop params ''path'' in
      case call_installExtension ctx path s of
        (Inl e, s1) \<Rightarrow> (Inl e, s1)
      | (Inr ident, s1) \<Rightarrow>
          (Inr (), appendResponseLine (''Extension installed. Id: '' @ ident) s1))"

text \<open>Lines 41 to 45 and 162 to 166.\<close>

definition uninstallExtension_handler ::
  "jsobject \<Rightarrow> 'c ExecutionContext \<Rightarrow> 'c hstate \<Rightarrow> 'c hresult" where
  "uninstallExtension_handler params ctx s =
     (let ident = get_prop params ''id'' in
      case call_uninstallExtension ctx ident s of
        (Inl e, s1) \<Rightarrow> (Inl e, s1)
      | (Inr _, s1) \<Rightarrow>
          (Inr (), appendResponseLine (''Extension uninstalled. Id: '' @ js_String ident) s1))"

text \<open>Lines 58 to 60 and 179 to 181.\<close>

definition listExtensions_handler ::
  "jsobject \<Rightarrow> 'c ExecutionContext \<Rightarrow> 'c hstate \<Rightarrow> 'c hresult" where
  "listExtensions_handler request ctx s = (Inr (), setListExtensions s)"

text \<open>
  Lines 73 to 81 and 195 to 203.  \<open>!extension\<close> holds when \<open>getExtension\<close> gave
  no record.
\<close>

definition reloadExtension_handler ::
  "jsobject \<Rightarrow> 'c ExecutionContext \<Rightarrow> 'c hstate \<Rightarrow> 'c hresult" where
  "reloadExtension_handler params ctx s =
     (let ident = get_prop params ''id'' in
      case call_getExtension ctx ident s of
        (Inl e, s1) \<Rightarrow> (Inl e, s1)
      | (Inr None, s1) \<Rightarrow>
          (Inl (ErrorObj (''Extension with ID '' @ js_String ident @ '' not found.'')), s1)
      | (Inr (Some extension), s1) \<Rightarrow>
          (case call_installExtension ctx (JString (ext_path extension)) s1 of
             (Inl e, s2) \<Rightarrow> (Inl e, s2)
           | (Inr _, s2) \<Rightarrow> (Inr (), appendResponseLine ''Extension reloaded.'' s2)))"

text \<open>Lines 108 to 116: the handler of the first \<open>open_extension_sidepanel\<close>.\<close>

definition openExtensionSidepanel_handler_A ::
  "jsobject \<Rightarrow> 'c ExecutionContext \<Rightarrow> 'c hstate \<Rightarrow> 'c hresult" where
  "openExtensionSidepanel_handler_A params ctx s =
     (case call_openExtensionSidepanel ctx (get_prop params ''id'') s of
        (Inl e, s1) \<Rightarrow> (Inl e, s1)
      | (Inr result, s1) \<Rightarrow>
          (Inr (),
           run_stmts
             [appendResponseLine (''Sidepanel opened: '' @ result_url result),
              appendResponseLine '''',
              appendResponseLine (''> '' @ result_note result),
              setIncludePages True] s1))"

text \<open>
  Lines 226 to 252: the handler of the second \<open>open_extension_sidepanel\<close>, whose
  body is one \<open>try\<close> with a \<open>catch\<close>.  The first statement of the \<open>catch\<close>
  block, line 241, can throw itself: then the handler ends with that value, before any
  line is appended.
\<close>

definition openExtensionSidepanel_handler_B ::
  "jsobject \<Rightarrow> 'c ExecutionContext \<Rightarrow> 'c hstate \<Rightarrow> 'c hresult" where
  "openExtensionSidepanel_handler_B params ctx s =
     (case call_openExtensionSidepanel ctx (get_prop params ''extensionId'') s of
        (Inr result, s1) \<Rightarrow>
          (Inr (),
           run_stmts
             [appendResponseLine ''# Sidepanel Opened Successfully'',
              appendResponseLine '''',
              appendResponseLine (''**URL:** '' @ result_url result),
              appendResponseLine (''**Window ID:** '' @ js_String (result_windowId result)),
              appendResponseLine '''',
              appendResponseLine (''> '' @ result_note result),
              appendResponseLine '''',
              appendResponseLine
                ''Use `list_pages` to see the sidepanel and `select_page` to interact with it.'',
              setIncludePages True] s1)
      | (Inl error, s1) \<Rightarrow>
          (case error_message error of
             Inl t \<Rightarrow> (Inl t, s1)
           | Inr errorMessage \<Rightarrow>
               (Inr (),
                run_stmts
                  [appendResponseLine ''# Failed to Open Sidepanel'',
                   appendResponseLine '''',
                   appendResponseLine (''**Error:** '' @ errorMessage),
                   appendResponseLine '''',
                   appendResponseLine ''**Troubleshooting:**'',
                   appendResponseLine ''- Ensure the extension is installed and enabled'',
                   appendResponseLine
                     ''- Verify the extension has a `side_panel.default_path` in its manifest.json'',
                   appendResponseLine ''- Check that the extension has a service worker running'',
                   appendResponseLine ''- Use `list_pages` to see available service workers''] s1)))"

text \<open>
  The lines that the \<open>catch\<close> block of lines 240 to 251 appends, for the message of
  line 241.
\<close>

definition sidepanel_failure_lines :: "string \<Rightarrow> string list" where
  "sidepanel_failure_lines errorMessage =
     [''# Failed to Open Sidepanel'',
      '''',
      ''**Error:** '' @ errorMessage,
      '''',
      ''**Troubleshooting:**'',
      ''- Ensure the extension is installed and enabled'',
      ''- Verify the extension has a `side_panel.default_path` in its manifest.json'',
      ''- Check that the extension has a service worker running'',
      ''- Use `list_pages` to see available service workers'']"


section \<open>The tool definitions\<close>

text \<open>Line 129.\<close>

definition EXTENSIONS_CONDITION :: string where
  "EXTENSIONS_CONDITION = ''experimentalExtensionSupport''"

definition sidepanel_description_A :: string where
  "sidepanel_description_A =
     ''Opens an extension's sidepanel for debugging. Due to Chrome security restrictions,\<newline>'' @
     ''the sidepanel opens in a detached popup window rather than docked to the browser sidebar.\<newline>'' @
     ''This provides full debugging capabilities (DOM inspection, console access, script evaluation)\<newline>'' @
     ''with identical code execution to docked mode. Only visual docking/layout differs.\<newline>'' @
     ''\<newline>'' @
     ''Requirements:\<newline>'' @
     ''- Extension must have a service worker running (check list_pages for service workers)\<newline>'' @
     ''- Extension must have side_panel.default_path in manifest.json\<newline>'' @
     ''\<newline>'' @
     ''After opening, use list_pages to see the sidepanel and select_page to interact with it.''"

definition sidepanel_description_B :: string where
  "sidepanel_description_B =
     ''Opens an extension's sidepanel for debugging. Due to Chrome security restrictions,\<newline>'' @
     ''the sidepanel opens in a detached popup window rather than docked to the browser sidebar.\<newline>'' @
     ''This provides full debugging capabilities (DOM inspection, console access, script evaluation)\<newline>'' @
     ''with identical code execution to docked mode. Only visual docking/layout differs.\<newline>'' @
     ''\<newline>'' @
     ''After opening, use list_pages to see the sidepanel and select_page to interact with it.''"

subsection \<open>First version, lines 12 to 117: no tool has \<open>conditions\<close>\<close>

definition installExtension_A :: "'c ToolDefinition" where
  "installExtension_A = defineTool
     \<lparr>name = ''install_extension'',
      description = ''Installs a Chrome extension from the given path.'',
      annotations = \<lparr>category = EXTENSIONS, readOnlyHint = False, conditions = None\<rparr>,
      schema =
        [(''path'', describe ''Absolute path to the unpacked extension folder.'' zod_string)],
      handler = installExtension_handler\<rparr>"

definition uninstallExtension_A :: "'c ToolDefinition" where
  "uninstallExtension_A = defineTool
     \<lparr>name = ''uninstall_extension'',
      description = ''Uninstalls a Chrome extension by its ID.'',
      annotations = \<lparr>category = EXTENSIONS, readOnlyHint = False, conditions = None\<rparr>,
      schema = [(''id'', describe ''ID of the extension to uninstall.'' zod_string)],
      handler = uninstallExtension_handler\<rparr>"

definition listExtensions_A :: "'c ToolDefinition" where
  "listExtensions_A = defineTool
     \<lparr>name = ''list_extensions'',
      description =
        ''Lists extensions installed via this server (using install_extension), including their name, ID, version, and path. '' @
        ''Note: Pre-installed browser extensions are not shown here. Use list_pages to see all extension service workers.'',
      annotations = \<lparr>category = EXTENSIONS, readOnlyHint = True, conditions = None\<rparr>,
      schema = [],
      handler = listExtensions_handler\<rparr>"

definition reloadExtension_A :: "'c ToolDefinition" where
  "reloadExtension_A = defineTool
     \<lparr>name = ''reload_extension'',
      description = ''Reloads an unpacked Chrome extension by its ID.'',
      annotations = \<lparr>category = EXTENSIONS, readOnlyHint = False, conditions = None\<rparr>,
      schema = [(''id'', describe ''ID of the extension to reload.'' zod_string)],
      handler = reloadExtension_handler\<rparr>"

definition openExtensionSidepanel_A :: "'c ToolDefinition" where
  "openExtensionSidepanel_A = defineTool
     \<lparr>name = ''open_extension_sidepanel'',
      description = sidepanel_description_A,
      annotations = \<lparr>category = EXTENSIONS, readOnlyHint = False, conditions = None\<rparr>,
      schema =
        [(''id'',
          describe
            (''The extension ID. Find IDs via list_pages (shown in Service Workers section) '' @
             ''or list_extensions (for extensions installed via this server).'')
            zod_string)],
      handler = openExtensionSidepanel_handler_A\<rparr>"

subsection \<open>Second version, lines 131 to 253\<close>

definition installExtension_B :: "'c ToolDefinition" where
  "installExtension_B = defineTool
     \<lparr>name = ''install_extension'',
      description = ''Installs a Chrome extension from the given path.'',
      annotations =
        \<lparr>category = EXTENSIONS, readOnlyHint = False,
         conditions = Some [EXTENSIONS_CONDITION]\<rparr>,
      schema =
        [(''path'', describe ''Absolute path to the unpacked extension folder.'' zod_string)],
      handler = installExtension_handler\<rparr>"

definition uninstallExtension_B :: "'c ToolDefinition" where
  "uninstallExtension_B = defineTool
     \<lparr>name = ''uninstall_extension'',
      description = ''Uninstalls a Chrome extension by its ID.'',
      annotations =
        \<lparr>category = EXTENSIONS, readOnlyHint = False,
         conditions = Some [EXTENSIONS_CONDITION]\<rparr>,
      schema = [(''id'', describe ''ID of the extension to uninstall.'' zod_string)],
      handler = uninstallExtension_handler\<rparr>"

definition listExtensions_B :: "'c ToolDefinition" where
  "listExtensions_B = defineTool
     \<lparr>name = ''list_extensions'',
      description =
        ''Lists all extensions via this server, including their name, ID, version, and enabled status.'',
      annotations =
        \<lparr>category = EXTENSIONS, readOnlyHint = True,
         conditions = Some [EXTENSIONS_CONDITION]\<rparr>,
      schema = [],
      handler = listExtensions_handler\<rparr>"

definition reloadExtension_B :: "'c ToolDefinition" where
  "reloadExtension_B = defineTool
     \<lparr>name = ''reload_extension'',
      description = ''Reloads an unpacked Chrome extension by its ID.'',
      annotations =
        \<lparr>category = EXTENSIONS, readOnlyHint = False,
         conditions = Some [EXTENSIONS_CONDITION]\<rparr>,
      schema = [(''id'', describe ''ID of the extension to reload.'' zod_string)],
      handler = reloadExtension_handler\<rparr>"

definition openExtensionSidepanel_B :: "'c ToolDefinition" where
  "openExtensionSidepanel_B = defineTool
     \<lparr>name = ''open_extension_sidepanel'',
      description = sidepanel_description_B,
      annotations = \<lparr>category = DEBUGGING, readOnlyHint = False, conditions = None\<rparr>,
      schema =
        [(''extensionId'',
          describe
            (''The ID of the extension whose sidepanel should be opened. '' @
             ''Find extension IDs at chrome://extensions or from list_pages service worker URLs.'')
            zod_string)],
      handler = openExtensionSidepanel_handler_B\<rparr>"

text \<open>The tools each version of the module exports, in the order of the file.\<close>

definition tools_A :: "'c ToolDefinition list" where
  "tools_A =
     [installExtension_A, uninstallExtension_A, listExtensions_A, reloadExtension_A,
      openExtensionSidepanel_A]"

definition tools_B :: "'c ToolDefinition list" where
  "tools_B =
     [installExtension_B, uninstallExtension_B, listExtensions_B, reloadExtension_B,
      openExtensionSidepanel_B]"


section \<open>Schema validator, registry and dispatcher\<close>

text \<open>
  Modelled from the spec: the schema validator, the registry and the dispatcher
  (\<open>validate\<close>, \<open>register\<close>, \<open>listAvailable\<close>, \<open>invoke\<close>) are code of the
  repository that is not among the sources; the definitions of this section follow
  sections 4.1, 4.3 and 7 of the specification.
\<close>

datatype issue = MissingKey string zod_type | WrongType string zod_type | ExtraneousKey string

fun issue_key :: "issue \<Rightarrow> string" where
  "issue_key (MissingKey k t) = k"
| "issue_key (WrongType k t) = k"
| "issue_key (ExtraneousKey k) = k"

datatype DispatchError =
  DefinitionError string
| NotFoundError string
| ValidationError "issue list"

text \<open>A response: the drained builder, or the failure of the handler.\<close>

datatype Response = Success Rendered | HandlerError thrown

fun has_type :: "zod_type \<Rightarrow> jsval \<Rightarrow> bool" where
  "has_type ZodString (JString s) = True"
| "has_type ZodString v = False"

text \<open>
  Modelled from the spec: section 4.1.  The issues of one declared key: a required key
  that the payload lacks, or a value of the wrong primitive type.
\<close>

definition field_issues :: "jsobject \<Rightarrow> string \<times> zod_field \<Rightarrow> issue list" where
  "field_issues rawParams kd =
     (case map_of rawParams (fst kd) of
        None \<Rightarrow> (if zrequired (snd kd) then [MissingKey (fst kd) (ztype (snd kd))] else [])
      | Some v \<Rightarrow>
          (if has_type (ztype (snd kd)) v then [] else [WrongType (fst kd) (ztype (snd kd))]))"

text \<open>
  Modelled from the spec: section 4.1.  The schema is closed: a key of the payload that
  the schema does not declare is an issue too.  Without issues, the result is the object
  of exactly the declared keys that the payload has.
\<close>

definition validate :: "ParameterSchema \<Rightarrow> jsobject \<Rightarrow> issue list + jsobject" where
  "validate sch rawParams =
     (let issues =
            concat (map (field_issues rawParams) sch) @
            map ExtraneousKey (filter (\<lambda>k. k \<notin> set (map fst sch)) (map fst rawParams))
      in if issues = [] then
           Inr (List.map_filter
                  (\<lambda>kd. map_option (Pair (fst kd)) (map_of rawParams (fst kd))) sch)
         else Inl issues)"

text \<open>
  Modelled from the spec: section 4.3.  The registry holds the definitions in
  registration order; a second definition of a name is refused and leaves it as it was.
\<close>

definition register ::
  "'c ToolDefinition \<Rightarrow> 'c ToolDefinition list \<Rightarrow> DispatchError + 'c ToolDefinition list" where
  "register d reg =
     (if name d \<in> set (map name reg) then Inl (DefinitionError (name d))
      else Inr (reg @ [d]))"

definition lookup :: "'c ToolDefinition list \<Rightarrow> string \<Rightarrow> 'c ToolDefinition option" where
  "lookup reg nm = find (\<lambda>t. name t = nm) reg"

text \<open>
  Modelled from the spec: a tool is exposed when its conditions are a subset of the
  active capability set; a definition without \<open>conditions\<close> has none to meet.
\<close>

definition conditions_of :: "'c ToolDefinition \<Rightarrow> string list" where
  "conditions_of t = (case conditions (annotations t) of None \<Rightarrow> [] | Some cs \<Rightarrow> cs)"

definition exposed :: "string set \<Rightarrow> 'c ToolDefinition \<Rightarrow> bool" where
  "exposed activeCapabilities t = (set (conditions_of t) \<subseteq> activeCapabilities)"

record ToolSummary =
  summary_name :: string
  summary_description :: string
  summary_schema :: ParameterSchema
  summary_category :: ToolCategory

definition summary :: "'c ToolDefinition \<Rightarrow> ToolSummary" where
  "summary t =
     \<lparr>summary_name = name t,
      summary_description = description t,
      summary_schema = schema t,
      summary_category = category (annotations t)\<rparr>"

definition listAvailable :: "'c ToolDefinition list \<Rightarrow> string set \<Rightarrow> ToolSummary list" where
  "listAvailable reg activeCapabilities = map summary (filter (exposed activeCapabilities) reg)"

text \<open>
  Modelled from the spec: section 4.3, steps 3 to 6.  A fresh builder is made, the
  handler runs once, its failure becomes a \<open>HandlerError\<close> response, and otherwise the
  builder is drained.  With the response come the state of the context afterwards and
  the context calls made.
\<close>

definition execute ::
  "'c ToolDefinition \<Rightarrow> jsobject \<Rightarrow> 'c ExecutionContext \<Rightarrow> 'c \<Rightarrow> Response \<times> 'c \<times> ctx_call list" where
  "execute t typedParams ctx c =
     (case handler t typedParams ctx \<lparr>response = fresh_builder, cstate = c, calls = []\<rparr> of
        (Inl e, s) \<Rightarrow> (HandlerError e, cstate s, calls s)
      | (Inr u, s) \<Rightarrow> (Success (finalize (response s)), cstate s, calls s))"

text \<open>
  Modelled from the spec: section 4.3, steps 1 and 2, then \<open>execute\<close>.  A name that
  is absent and a name that is gated out give the same \<open>NotFoundError\<close>.
\<close>

definition invoke ::
  "'c ToolDefinition list \<Rightarrow> string \<Rightarrow> jsobject \<Rightarrow> string set \<Rightarrow> 'c ExecutionContext \<Rightarrow> 'c
     \<Rightarrow> (DispatchError + Response) \<times> 'c \<times> ctx_call list" where
  "invoke reg nm rawParams activeCapabilities ctx c =
     (case lookup reg nm of
        None \<Rightarrow> (Inl (NotFoundError nm), c, [])
      | Some t \<Rightarrow>
          if \<not> exposed activeCapabilities t then (Inl (NotFoundError nm), c, [])
          else
            (case validate (schema t) rawParams of
               Inl issues \<Rightarrow> (Inl (ValidationError issues), c, [])
             | Inr typedParams \<Rightarrow>
                 (case execute t typedParams ctx c of (r, c', cs) \<Rightarrow> (Inr r, c', cs))))"

text \<open>The arguments of the calls of \<open>installExtension\<close> in a log, in order.\<close>

fun installExtension_calls :: "ctx_call list \<Rightarrow> jsval list" where
  "installExtension_calls [] = []"
| "installExtension_calls (Call_installExtension a # cs) = a # installExtension_calls cs"
| "installExtension_calls (other # cs) = installExtension_calls cs"


section \<open>A context for the end-to-end scenarios\<close>

text \<open>
  The scenarios of section 8 of the specification need a context to run against.  This
  one keeps the list of installed extensions: the folder \<open>/tmp/ext\<close> installs as
  \<open>abc123\<close>, any other argument is refused, and a side panel opens for an installed
  extension only.
\<close>

definition find_extension :: "jsval \<Rightarrow> Extension list \<Rightarrow> Extension option" where
  "find_extension a exts = find (\<lambda>e. JString (ext_id e) = a) exts"

definition scenario_context :: "Extension list ExecutionContext" where
  "scenario_context =
     \<lparr>ctx_installExtension =
        (\<lambda>a exts.
           if a = JString ''/tmp/ext''
           then (Inr ''abc123'', exts @ [\<lparr>ext_id = ''abc123'', ext_path = ''/tmp/ext''\<rparr>])
           else (Inl (ErrorObj ''Not an unpacked extension''), exts)),
      ctx_uninstallExtension =
        (\<lambda>a exts.
           case find_extension a exts of
             None \<Rightarrow> (Inl (ErrorObj ''Unknown extension''), exts)
           | Some e \<Rightarrow> (Inr (), filter (\<lambda>x. JString (ext_id x) \<noteq> a) exts)),
      ctx_getExtension = (\<lambda>a exts. (Inr (find_extension a exts), exts)),
      ctx_openExtensionSidepanel =
        (\<lambda>a exts.
           case find_extension a exts of
             None \<Rightarrow> (Inl (ErrorObj ''No service worker''), exts)
           | Some e \<Rightarrow>
               (Inr \<lparr>result_url = ''chrome-extension://abc123/panel.html'',
                     result_note = ''Detached window'',
                     result_windowId = JOther ''7''\<rparr>, exts))\<rparr>"



section \<open>Facts about the handlers\<close>

lemmas builder_defs = appendResponseLine_def setListExtensions_def setIncludePages_def
  run_stmts_def fresh_builder_def finalize_def

lemmas call_defs = call_installExtension_def call_uninstallExtension_def
  call_getExtension_def call_openExtensionSidepanel_def

lemmas tool_defs_A = installExtension_A_def uninstallExtension_A_def listExtensions_A_def
  reloadExtension_A_def openExtensionSidepanel_A_def

lemmas tool_defs_B = installExtension_B_def uninstallExtension_B_def listExtensions_B_def
  reloadExtension_B_def openExtensionSidepanel_B_def

lemmas scenario_defs = scenario_context_def find_extension_def get_prop_def


lemma listExtensions_handler_result:
  "listExtensions_handler params ctx s =
     (Inr (), s\<lparr>response := (response s)\<lparr>listExtensionsFlag := True\<rparr>\<rparr>)"
  by (simp add: listExtensions_handler_def setListExtensions_def)

lemma installExtension_handler_success:
  assumes "ctx_installExtension ctx (get_prop params ''path'') (cstate s) = (Inr ident, c')"
  shows "installExtension_handler params ctx s =
     (Inr (),
      s\<lparr>cstate := c',
        calls := calls s @ [Call_installExtension (get_prop params ''path'')],
        response := (response s)
          \<lparr>textLines := textLines (response s) @ [''Extension installed. Id: '' @ ident]\<rparr>\<rparr>)"
  using assms by (simp add: installExtension_handler_def call_defs builder_defs Let_def)

lemma reloadExtension_handler_absent:
  assumes "ctx_getExtension ctx (get_prop params ''id'') (cstate s) = (Inr None, c')"
  shows "reloadExtension_handler params ctx s =
     (Inl (ErrorObj (''Extension with ID '' @ js_String (get_prop params ''id'') @ '' not found.'')),
      s\<lparr>cstate := c', calls := calls s @ [Call_getExtension (get_prop params ''id'')]\<rparr>)"
  using assms by (simp add: reloadExtension_handler_def call_defs Let_def)

lemma reloadExtension_handler_present:
  assumes "ctx_getExtension ctx (get_prop params ''id'') (cstate s) = (Inr (Some ext), c1)"
    and "ctx_installExtension ctx (JString (ext_path ext)) c1 = (r, c2)"
  shows "reloadExtension_handler params ctx s =
     (case r of
        Inl e \<Rightarrow>
          (Inl e,
           s\<lparr>cstate := c2,
             calls := calls s @ [Call_getExtension (get_prop params ''id''),
                                 Call_installExtension (JString (ext_path ext))]\<rparr>)
      | Inr ident \<Rightarrow>
          (Inr (),
           s\<lparr>cstate := c2,
             calls := calls s @ [Call_getExtension (get_prop params ''id''),
                                 Call_installExtension (JString (ext_path ext))],
             response := (response s)
               \<lparr>textLines := textLines (response s) @ [''Extension reloaded.'']\<rparr>\<rparr>))"
  using assms
  by (simp add: reloadExtension_handler_def call_defs builder_defs Let_def split: sum.splits)

lemma openExtensionSidepanel_handler_A_success:
  assumes "ctx_openExtensionSidepanel ctx (get_prop params ''id'') (cstate s) = (Inr result, c')"
  shows "openExtensionSidepanel_handler_A params ctx s =
     (Inr (),
      s\<lparr>cstate := c',
        calls := calls s @ [Call_openExtensionSidepanel (get_prop params ''id'')],
        response := (response s)
          \<lparr>textLines := textLines (response s) @
             [''Sidepanel opened: '' @ result_url result, '''', ''> '' @ result_note result],
           includePagesFlag := True\<rparr>\<rparr>)"
  using assms
  by (simp add: openExtensionSidepanel_handler_A_def call_defs builder_defs)

lemma openExtensionSidepanel_handler_A_failure:
  assumes "ctx_openExtensionSidepanel ctx (get_prop params ''id'') (cstate s) = (Inl e, c')"
  shows "openExtensionSidepanel_handler_A params ctx s =
     (Inl e,
      s\<lparr>cstate := c',
        calls := calls s @ [Call_openExtensionSidepanel (get_prop params ''id'')]\<rparr>)"
  using assms
  by (simp add: openExtensionSidepanel_handler_A_def call_defs)

lemma openExtensionSidepanel_handler_B_failure:
  assumes "ctx_openExtensionSidepanel ctx (get_prop params ''extensionId'') (cstate s) = (Inl e, c')"
    and "error_message e = Inr msg"
  shows "openExtensionSidepanel_handler_B params ctx s =
     (Inr (),
      s\<lparr>cstate := c',
        calls := calls s @ [Call_openExtensionSidepanel (get_prop params ''extensionId'')],
        response := (response s)
          \<lparr>textLines := textLines (response s) @ sidepanel_failure_lines msg\<rparr>\<rparr>)"
  using assms
  by (simp add: openExtensionSidepanel_handler_B_def call_defs builder_defs
      sidepanel_failure_lines_def)

lemma openExtensionSidepanel_handler_B_rethrow:
  assumes "ctx_openExtensionSidepanel ctx (get_prop params ''extensionId'') (cstate s) = (Inl e, c')"
    and "error_message e = Inl t"
  shows "openExtensionSidepanel_handler_B params ctx s =
     (Inl t,
      s\<lparr>cstate := c',
        calls := calls s @ [Call_openExtensionSidepanel (get_prop params ''extensionId'')]\<rparr>)"
  using assms
  by (simp add: openExtensionSidepanel_handler_B_def call_defs)

lemma error_message_Inl: "error_message e = Inl t \<longleftrightarrow> e = ThrownNoString t"
  by (cases e) auto

lemma ThrownNoString_neq: "ThrownNoString t \<noteq> t"
  by (induction t) auto

lemma sidepanel_A_handler_fresh_failure:
  fixes ctx :: "'c ExecutionContext"
  assumes "ctx_openExtensionSidepanel ctx (get_prop params ''id'') c = (Inl e, c')"
  shows "handler openExtensionSidepanel_A params ctx
           \<lparr>response = fresh_builder, cstate = c, calls = []\<rparr> =
         (Inl e,
          \<lparr>response = fresh_builder, cstate = c',
           calls = [Call_openExtensionSidepanel (get_prop params ''id'')]\<rparr>)"
  using assms
  by (simp add: openExtensionSidepanel_A_def defineTool_def
      openExtensionSidepanel_handler_A_failure)

lemma sidepanel_B_handler_fresh_failure:
  fixes ctx :: "'c ExecutionContext"
  assumes "ctx_openExtensionSidepanel ctx (get_prop params ''extensionId'') c = (Inl e, c')"
  shows "handler openExtensionSidepanel_B params ctx
           \<lparr>response = fresh_builder, cstate = c, calls = []\<rparr> =
         (case error_message e of
            Inr m \<Rightarrow>
              (Inr (),
               \<lparr>response = \<lparr>textLines = sidepanel_failure_lines m,
                             listExtensionsFlag = False, includePagesFlag = False\<rparr>,
                cstate = c',
                calls = [Call_openExtensionSidepanel (get_prop params ''extensionId'')]\<rparr>)
          | Inl t \<Rightarrow>
              (Inl t,
               \<lparr>response = fresh_builder, cstate = c',
                calls = [Call_openExtensionSidepanel (get_prop params ''extensionId'')]\<rparr>))"
proof (cases "error_message e")
  case (Inl t)
  with assms show ?thesis
    by (simp add: openExtensionSidepanel_B_def defineTool_def
        openExtensionSidepanel_handler_B_rethrow)
next
  case (Inr m)
  with assms show ?thesis
    by (simp add: openExtensionSidepanel_B_def defineTool_def
        openExtensionSidepanel_handler_B_failure fresh_builder_def)
qed

lemma execute_sidepanel_A_failure:
  fixes ctx :: "'c ExecutionContext"
  assumes "ctx_openExtensionSidepanel ctx (get_prop params ''id'') c = (Inl e, c')"
  shows "execute openExtensionSidepanel_A params ctx c =
         (HandlerError e, c', [Call_openExtensionSidepanel (get_prop params ''id'')])"
  by (simp add: execute_def sidepanel_A_handler_fresh_failure [OF assms])

lemma execute_sidepanel_B_failure:
  fixes ctx :: "'c ExecutionContext"
  assumes "ctx_openExtensionSidepanel ctx (get_prop params ''extensionId'') c = (Inl e, c')"
  shows "execute openExtensionSidepanel_B params ctx c =
         ((case error_message e of
             Inr m \<Rightarrow>
               Success \<lparr>outLines = sidepanel_failure_lines m,
                        outListExtensions = False, outIncludePages = False\<rparr>
           | Inl t \<Rightarrow> HandlerError t),
          c', [Call_openExtensionSidepanel (get_prop params ''extensionId'')])"
  by (simp add: execute_def sidepanel_B_handler_fresh_failure [OF assms] finalize_def
      split: sum.splits)


section \<open>Facts about the schema validator, the registry and the dispatcher\<close>

lemma lookup_tools_A:
  "lookup tools_A ''install_extension'' = Some installExtension_A"
  "lookup tools_A ''uninstall_extension'' = Some uninstallExtension_A"
  "lookup tools_A ''list_extensions'' = Some listExtensions_A"
  "lookup tools_A ''reload_extension'' = Some reloadExtension_A"
  "lookup tools_A ''open_extension_sidepanel'' = Some openExtensionSidepanel_A"
  by (simp_all add: lookup_def tools_A_def tool_defs_A defineTool_def)

lemma lookup_tools_B:
  "lookup tools_B ''install_extension'' = Some installExtension_B"
  "lookup tools_B ''uninstall_extension'' = Some uninstallExtension_B"
  "lookup tools_B ''list_extensions'' = Some listExtensions_B"
  "lookup tools_B ''reload_extension'' = Some reloadExtension_B"
  "lookup tools_B ''open_extension_sidepanel'' = Some openExtensionSidepanel_B"
  by (simp_all add: lookup_def tools_B_def tool_defs_B defineTool_def)

lemma exposed_tools_A:
  "exposed caps installExtension_A"
  "exposed caps uninstallExtension_A"
  "exposed caps listExtensions_A"
  "exposed caps reloadExtension_A"
  "exposed caps openExtensionSidepanel_A"
  by (simp_all add: exposed_def conditions_of_def tool_defs_A defineTool_def)

lemma exposed_tools_B:
  "exposed caps installExtension_B \<longleftrightarrow> EXTENSIONS_CONDITION \<in> caps"
  "exposed caps uninstallExtension_B \<longleftrightarrow> EXTENSIONS_CONDITION \<in> caps"
  "exposed caps listExtensions_B \<longleftrightarrow> EXTENSIONS_CONDITION \<in> caps"
  "exposed caps reloadExtension_B \<longleftrightarrow> EXTENSIONS_CONDITION \<in> caps"
  "exposed caps openExtensionSidepanel_B"
  by (simp_all add: exposed_def conditions_of_def tool_defs_B defineTool_def)

lemma names_tools_A:
  "map name tools_A =
     [''install_extension'', ''uninstall_extension'', ''list_extensions'',
      ''reload_extension'', ''open_extension_sidepanel'']"
  by (simp add: tools_A_def tool_defs_A defineTool_def)

lemma names_tools_B:
  "map name tools_B =
     [''install_extension'', ''uninstall_extension'', ''list_extensions'',
      ''reload_extension'', ''open_extension_sidepanel'']"
  by (simp add: tools_B_def tool_defs_B defineTool_def)

lemma summary_name_listAvailable:
  "map summary_name (listAvailable reg caps) = map name (filter (exposed caps) reg)"
  by (simp add: listAvailable_def summary_def comp_def)

lemma validate_one_string:
  "validate [(k, describe d zod_string)] [(k, JString v)] = Inr [(k, JString v)]"
  by (simp add: validate_def field_issues_def describe_def zod_string_def List.map_filter_def)

lemma lookup_registered:
  "distinct (map name reg) \<Longrightarrow> t \<in> set reg \<Longrightarrow> lookup reg (name t) = Some t"
proof (induction reg)
  case Nil
  then show ?case by simp
next
  case (Cons a reg)
  show ?case
  proof (cases "name a = name t")
    case True
    with Cons.prems have "a = t" by force
    then show ?thesis by (simp add: lookup_def)
  next
    case False
    with Cons show ?thesis by (auto simp: lookup_def)
  qed
qed

lemma lookup_unregistered: "nm \<notin> set (map name reg) \<Longrightarrow> lookup reg nm = None"
  by (auto simp: lookup_def find_None_iff)

lemma lookup_replace_handler:
  "lookup (map (\<lambda>t. t\<lparr>handler := h\<rparr>) reg) nm = map_option (\<lambda>t. t\<lparr>handler := h\<rparr>) (lookup reg nm)"
  by (induction reg) (auto simp: lookup_def)

lemma validate_missing:
  assumes "(k, d) \<in> set sch" and "zrequired d" and "k \<notin> set (map fst rawParams)"
  shows "\<exists>issues. validate sch rawParams = Inl issues \<and> MissingKey k (ztype d) \<in> set issues"
proof -
  from assms(3) have "map_of rawParams k = None"
    by (simp add: map_of_eq_None_iff)
  with assms(2) have "field_issues rawParams (k, d) = [MissingKey k (ztype d)]"
    by (simp add: field_issues_def)
  with assms(1) have "MissingKey k (ztype d) \<in> set (concat (map (field_issues rawParams) sch))"
    by force
  then show ?thesis
    by (auto simp: validate_def Let_def)
qed


section \<open>The claims\<close>

text \<open>
  C1, as stated, fails on the code: the claim has \<open>open_extension_sidepanel\<close> absent
  from \<open>listAvailable({})\<close>, but neither version of the file gives the tool a
  \<open>conditions\<close> annotation, so with the empty capability set it is listed by both.
\<close>

theorem sidepanel_absent_counterexample:
  "\<not> (''open_extension_sidepanel''
        \<notin> set (map summary_name (listAvailable (tools_A :: unit ToolDefinition list) {})))
   \<and> \<not> (''open_extension_sidepanel''
        \<notin> set (map summary_name (listAvailable (tools_B :: unit ToolDefinition list) {})))"
  by (simp add: summary_name_listAvailable tools_A_def tools_B_def exposed_tools_A
      exposed_tools_B EXTENSIONS_CONDITION_def)
     (simp add: tool_defs_A tool_defs_B defineTool_def)

text \<open>
  C1, amended: \<open>open_extension_sidepanel\<close> declares no conditions in either version of
  the file, and it is listed for every active capability set, the empty one too.  The
  first version lists all five tools always.  In the second version the condition
  \<open>experimentalExtensionSupport\<close> gates \<open>install_extension\<close>,
  \<open>uninstall_extension\<close>, \<open>list_extensions\<close> and \<open>reload_extension\<close>: they are
  listed exactly when the active set contains it.
\<close>

theorem sidepanel_always_listed:
  "map summary_name (listAvailable (tools_A :: 'c ToolDefinition list) caps) =
     [''install_extension'', ''uninstall_extension'', ''list_extensions'',
      ''reload_extension'', ''open_extension_sidepanel'']
   \<and> map summary_name (listAvailable (tools_B :: 'c ToolDefinition list) caps) =
     (if EXTENSIONS_CONDITION \<in> caps
      then [''install_extension'', ''uninstall_extension'', ''list_extensions'',
            ''reload_extension'', ''open_extension_sidepanel'']
      else [''open_extension_sidepanel''])
   \<and> conditions (annotations (openExtensionSidepanel_A :: 'c ToolDefinition)) = None
   \<and> conditions (annotations (openExtensionSidepanel_B :: 'c ToolDefinition)) = None"
proof -
  have a: "filter (exposed caps) tools_A = tools_A"
    by (simp add: tools_A_def exposed_tools_A)
  have b: "filter (exposed caps) tools_B =
      (if EXTENSIONS_CONDITION \<in> caps then tools_B else [openExtensionSidepanel_B])"
    by (simp add: tools_B_def exposed_tools_B)
  have c: "name openExtensionSidepanel_B = ''open_extension_sidepanel''"
    by (simp add: tool_defs_B defineTool_def)
  show ?thesis
    by (simp add: summary_name_listAvailable a b c names_tools_A names_tools_B)
       (simp add: tool_defs_A tool_defs_B defineTool_def)
qed

text \<open>
  C2: when \<open>installExtension(path)\<close> of the context succeeds with an identifier, the
  finalized response of \<open>install_extension\<close> is the one line
  \<open>Extension installed. Id: \<close> followed by that identifier, in both versions of the
  tool and through the dispatcher, and the context was called once, with the path.
\<close>

theorem install_extension_reports_id:
  assumes "ctx_installExtension ctx (JString path) c = (Inr ident, c')"
  shows "execute installExtension_A [(''path'', JString path)] ctx c =
           (Success \<lparr>outLines = [''Extension installed. Id: '' @ ident],
                     outListExtensions = False, outIncludePages = False\<rparr>,
            c', [Call_installExtension (JString path)])
       \<and> execute installExtension_B [(''path'', JString path)] ctx c =
           (Success \<lparr>outLines = [''Extension installed. Id: '' @ ident],
                     outListExtensions = False, outIncludePages = False\<rparr>,
            c', [Call_installExtension (JString path)])
       \<and> invoke tools_A ''install_extension'' [(''path'', JString path)] caps ctx c =
           (Inr (Success \<lparr>outLines = [''Extension installed. Id: '' @ ident],
                          outListExtensions = False, outIncludePages = False\<rparr>),
            c', [Call_installExtension (JString path)])"
proof -
  have p: "get_prop [(''path'', JString path)] ''path'' = JString path"
    by (simp add: get_prop_def)
  have h: "installExtension_handler [(''path'', JString path)] ctx
             \<lparr>response = fresh_builder, cstate = c, calls = []\<rparr> =
           (Inr (),
            \<lparr>response = \<lparr>textLines = [''Extension installed. Id: '' @ ident],
                          listExtensionsFlag = False, includePagesFlag = False\<rparr>,
             cstate = c', calls = [Call_installExtension (JString path)]\<rparr>)"
    using assms by (simp add: installExtension_handler_success p fresh_builder_def)
  have ea: "execute installExtension_A [(''path'', JString path)] ctx c =
           (Success \<lparr>outLines = [''Extension installed. Id: '' @ ident],
                     outListExtensions = False, outIncludePages = False\<rparr>,
            c', [Call_installExtension (JString path)])"
    by (simp add: execute_def installExtension_A_def defineTool_def h finalize_def)
  have eb: "execute installExtension_B [(''path'', JString path)] ctx c =
           (Success \<lparr>outLines = [''Extension installed. Id: '' @ ident],
                     outListExtensions = False, outIncludePages = False\<rparr>,
            c', [Call_installExtension (JString path)])"
    by (simp add: execute_def installExtension_B_def defineTool_def h finalize_def)
  have v: "validate (schema installExtension_A) [(''path'', JString path)] =
      Inr [(''path'', JString path)]"
    by (simp add: installExtension_A_def defineTool_def validate_one_string)
  have "invoke tools_A ''install_extension'' [(''path'', JString path)] caps ctx c =
           (Inr (Success \<lparr>outLines = [''Extension installed. Id: '' @ ident],
                          outListExtensions = False, outIncludePages = False\<rparr>),
            c', [Call_installExtension (JString path)])"
    by (simp add: invoke_def lookup_tools_A exposed_tools_A v ea)
  with ea eb show ?thesis by simp
qed

text \<open>
  Scenario 1: the path \<open>/tmp/ext\<close> against a context that answers \<open>abc123\<close>.
\<close>

theorem install_extension_reports_id_witness:
  "ctx_installExtension scenario_context (JString ''/tmp/ext'') [] =
     (Inr ''abc123'', [\<lparr>ext_id = ''abc123'', ext_path = ''/tmp/ext''\<rparr>])
   \<and> invoke tools_A ''install_extension'' [(''path'', JString ''/tmp/ext'')] {} scenario_context [] =
     (Inr (Success \<lparr>outLines = [''Extension installed. Id: abc123''],
                    outListExtensions = False, outIncludePages = False\<rparr>),
      [\<lparr>ext_id = ''abc123'', ext_path = ''/tmp/ext''\<rparr>],
      [Call_installExtension (JString ''/tmp/ext'')])"
proof -
  have h: "ctx_installExtension scenario_context (JString ''/tmp/ext'') [] =
     (Inr ''abc123'', [\<lparr>ext_id = ''abc123'', ext_path = ''/tmp/ext''\<rparr>])"
    by (simp add: scenario_context_def)
  from install_extension_reports_id [OF h, of "{}"] h show ?thesis
    by simp
qed


text \<open>
  C3: when the invoked tool resolves (it is registered and exposed) and the payload lacks
  a key \<open>k\<close> that its schema declares as required, \<open>invoke\<close> returns a
  \<open>ValidationError\<close> whose issues name \<open>k\<close> as missing, the context state is
  untouched and no context call is made.  The handler is not run: the result is the same
  whatever handler \<open>h\<close> the registered definitions carry.
\<close>

theorem missing_required_key_rejected:
  assumes "lookup reg nm = Some t" and "exposed caps t"
    and "(k, d) \<in> set (schema t)" and "zrequired d" and "k \<notin> set (map fst rawParams)"
  shows "\<exists>issues.
           invoke reg nm rawParams caps ctx c = (Inl (ValidationError issues), c, [])
         \<and> MissingKey k (ztype d) \<in> set issues
         \<and> k \<in> set (map issue_key issues)
         \<and> invoke (map (\<lambda>t. t\<lparr>handler := h\<rparr>) reg) nm rawParams caps ctx c =
             (Inl (ValidationError issues), c, [])"
proof -
  from validate_missing [OF assms(3-5)] obtain issues
    where v: "validate (schema t) rawParams = Inl issues"
      and m: "MissingKey k (ztype d) \<in> set issues"
    by blast
  from m have "issue_key (MissingKey k (ztype d)) \<in> issue_key ` set issues"
    by (rule imageI)
  then have key: "k \<in> set (map issue_key issues)" by simp
  have i1: "invoke reg nm rawParams caps ctx c = (Inl (ValidationError issues), c, [])"
    using assms(1,2) v by (simp add: invoke_def)
  have e: "exposed caps (t\<lparr>handler := h\<rparr>)"
    using assms(2) by (simp add: exposed_def conditions_of_def)
  have i2: "invoke (map (\<lambda>t. t\<lparr>handler := h\<rparr>) reg) nm rawParams caps ctx c =
      (Inl (ValidationError issues), c, [])"
    using assms(1) e v by (simp add: invoke_def lookup_replace_handler)
  from i1 m key i2 show ?thesis by blast
qed

text \<open>
  Scenario 2: \<open>install_extension\<close> with the empty payload.
\<close>

theorem missing_required_key_rejected_witness:
  "lookup tools_A ''install_extension'' = Some (installExtension_A :: Extension list ToolDefinition)
   \<and> exposed {} (installExtension_A :: Extension list ToolDefinition)
   \<and> (''path'', describe ''Absolute path to the unpacked extension folder.'' zod_string)
        \<in> set (schema (installExtension_A :: Extension list ToolDefinition))
   \<and> zrequired (describe ''Absolute path to the unpacked extension folder.'' zod_string)
   \<and> ''path'' \<notin> set (map fst ([] :: jsobject))
   \<and> invoke tools_A ''install_extension'' [] {} scenario_context [] =
        (Inl (ValidationError [MissingKey ''path'' ZodString]), [], [])"
proof -
  let ?d = "describe ''Absolute path to the unpacked extension folder.'' zod_string"
  have h1: "lookup tools_A ''install_extension'' = Some (installExtension_A :: Extension list ToolDefinition)"
    by (rule lookup_tools_A)
  have h2: "exposed {} (installExtension_A :: Extension list ToolDefinition)"
    by (rule exposed_tools_A)
  have h3: "(''path'', ?d) \<in> set (schema (installExtension_A :: Extension list ToolDefinition))"
    by (simp add: installExtension_A_def defineTool_def)
  have h4: "zrequired ?d"
    by (simp add: describe_def zod_string_def)
  have h5: "''path'' \<notin> set (map fst ([] :: jsobject))"
    by simp
  have "validate (schema (installExtension_A :: Extension list ToolDefinition)) [] =
      Inl [MissingKey ''path'' ZodString]"
    by (simp add: validate_def field_issues_def installExtension_A_def
        defineTool_def describe_def zod_string_def)
  then have v: "invoke tools_A ''install_extension'' [] {} scenario_context [] =
        (Inl (ValidationError [MissingKey ''path'' ZodString]), [], [])"
    by (simp add: invoke_def h1 h2)
  from missing_required_key_rejected [OF h1 h2 h3 h4 h5, where ctx = scenario_context and c = "[]" and h = listExtensions_handler]
    h1 h2 h3 h4 v
  show ?thesis by simp
qed

text \<open>
  C4: when \<open>getExtension\<close> gives no record for the id, the handler of
  \<open>reload_extension\<close> throws the error \<open>Extension with ID ... not found.\<close> with
  the builder \<open>b\<close> it was given unchanged, so no line was appended before the failure;
  the only context call is the one to \<open>getExtension\<close>, so \<open>installExtension\<close> is
  not called; and the dispatcher turns the failure into a \<open>HandlerError\<close> response.
\<close>

theorem reload_absent_extension:
  assumes "ctx_getExtension ctx (get_prop params ''id'') c = (Inr None, c')"
  shows "reloadExtension_handler params ctx \<lparr>response = b, cstate = c, calls = cs\<rparr> =
           (Inl (ErrorObj (''Extension with ID '' @ js_String (get_prop params ''id'')
                            @ '' not found.'')),
            \<lparr>response = b, cstate = c', calls = cs @ [Call_getExtension (get_prop params ''id'')]\<rparr>)
       \<and> execute reloadExtension_A params ctx c =
           (HandlerError (ErrorObj (''Extension with ID '' @ js_String (get_prop params ''id'')
                                     @ '' not found.'')),
            c', [Call_getExtension (get_prop params ''id'')])
       \<and> execute reloadExtension_B params ctx c =
           (HandlerError (ErrorObj (''Extension with ID '' @ js_String (get_prop params ''id'')
                                     @ '' not found.'')),
            c', [Call_getExtension (get_prop params ''id'')])
       \<and> installExtension_calls (snd (snd (execute reloadExtension_A params ctx c))) = []
       \<and> installExtension_calls (snd (snd (execute reloadExtension_B params ctx c))) = []"
proof -
  have h: "\<And>b cs. reloadExtension_handler params ctx \<lparr>response = b, cstate = c, calls = cs\<rparr> =
           (Inl (ErrorObj (''Extension with ID '' @ js_String (get_prop params ''id'')
                            @ '' not found.'')),
            \<lparr>response = b, cstate = c', calls = cs @ [Call_getExtension (get_prop params ''id'')]\<rparr>)"
    using assms by (simp add: reloadExtension_handler_absent)
  have ea: "execute reloadExtension_A params ctx c =
           (HandlerError (ErrorObj (''Extension with ID '' @ js_String (get_prop params ''id'')
                                     @ '' not found.'')),
            c', [Call_getExtension (get_prop params ''id'')])"
    by (simp add: execute_def reloadExtension_A_def defineTool_def h)
  have eb: "execute reloadExtension_B params ctx c =
           (HandlerError (ErrorObj (''Extension with ID '' @ js_String (get_prop params ''id'')
                                     @ '' not found.'')),
            c', [Call_getExtension (get_prop params ''id'')])"
    by (simp add: execute_def reloadExtension_B_def defineTool_def h)
  show ?thesis
    by (simp add: h ea eb)
qed

text \<open>
  Scenario 3: reloading the unknown id \<open>nope\<close> with nothing installed.
\<close>

theorem reload_absent_extension_witness:
  "ctx_getExtension scenario_context (get_prop [(''id'', JString ''nope'')] ''id'') [] = (Inr None, [])
   \<and> execute reloadExtension_A [(''id'', JString ''nope'')] scenario_context [] =
       (HandlerError (ErrorObj ''Extension with ID nope not found.''), [],
        [Call_getExtension (JString ''nope'')])
   \<and> invoke tools_A ''reload_extension'' [(''id'', JString ''nope'')] {} scenario_context [] =
       (Inr (HandlerError (ErrorObj ''Extension with ID nope not found.'')), [],
        [Call_getExtension (JString ''nope'')])"
proof -
  have h: "ctx_getExtension scenario_context (get_prop [(''id'', JString ''nope'')] ''id'') []
      = (Inr None, [])"
    by (simp add: scenario_defs)
  have p: "get_prop [(''id'', JString ''nope'')] ''id'' = JString ''nope''"
    by (simp add: get_prop_def)
  have v: "validate (schema reloadExtension_A) [(''id'', JString ''nope'')] =
      Inr [(''id'', JString ''nope'')]"
    by (simp add: reloadExtension_A_def defineTool_def validate_one_string)
  from reload_absent_extension [OF h] have
    e: "execute reloadExtension_A [(''id'', JString ''nope'')] scenario_context [] =
       (HandlerError (ErrorObj ''Extension with ID nope not found.''), [],
        [Call_getExtension (JString ''nope'')])"
    by (simp add: p)
  show ?thesis
    by (simp add: h e invoke_def lookup_tools_A exposed_tools_A v)
qed

text \<open>
  C5: for a registered tool \<open>t\<close> whose conditions are not a subset of the active
  capability set, invoking it by name gives the \<open>NotFoundError\<close> outcome, with the
  context untouched and no call made, and that is the very outcome of invoking the same
  name on any registry \<open>reg'\<close> in which the name was never registered.
\<close>

theorem gated_tool_indistinguishable:
  assumes "distinct (map name reg)" and "t \<in> set reg"
    and "\<not> set (conditions_of t) \<subseteq> caps"
    and "name t \<notin> set (map name reg')"
  shows "invoke reg (name t) rawParams caps ctx c = (Inl (NotFoundError (name t)), c, [])
       \<and> invoke reg' (name t) rawParams caps ctx c = (Inl (NotFoundError (name t)), c, [])
       \<and> invoke reg (name t) rawParams caps ctx c = invoke reg' (name t) rawParams caps ctx c"
proof -
  from assms(1,2) have "lookup reg (name t) = Some t"
    by (rule lookup_registered)
  with assms(3) have g: "invoke reg (name t) rawParams caps ctx c = (Inl (NotFoundError (name t)), c, [])"
    by (simp add: invoke_def exposed_def)
  from assms(4) have "lookup reg' (name t) = None"
    by (rule lookup_unregistered)
  then have u: "invoke reg' (name t) rawParams caps ctx c = (Inl (NotFoundError (name t)), c, [])"
    by (simp add: invoke_def)
  from g u show ?thesis by simp
qed

text \<open>
  The gated \<open>install_extension\<close> of the second version under the empty capability
  set, against a registry that only holds \<open>open_extension_sidepanel\<close>.
\<close>

theorem gated_tool_indistinguishable_witness:
  "distinct (map name (tools_B :: Extension list ToolDefinition list))
   \<and> installExtension_B \<in> set (tools_B :: Extension list ToolDefinition list)
   \<and> \<not> set (conditions_of (installExtension_B :: Extension list ToolDefinition)) \<subseteq> {}
   \<and> name (installExtension_B :: Extension list ToolDefinition)
        \<notin> set (map name [openExtensionSidepanel_B :: Extension list ToolDefinition])
   \<and> invoke tools_B ''install_extension'' [(''path'', JString ''/tmp/ext'')] {}
         scenario_context [] =
       (Inl (NotFoundError ''install_extension''), [], [])
   \<and> invoke [openExtensionSidepanel_B] ''install_extension'' [(''path'', JString ''/tmp/ext'')] {}
         scenario_context [] =
       (Inl (NotFoundError ''install_extension''), [], [])"
proof -
  have h1: "distinct (map name (tools_B :: Extension list ToolDefinition list))"
    by (simp add: names_tools_B)
  have h2: "installExtension_B \<in> set (tools_B :: Extension list ToolDefinition list)"
    by (simp add: tools_B_def)
  have h3: "\<not> set (conditions_of (installExtension_B :: Extension list ToolDefinition)) \<subseteq> {}"
    by (simp add: conditions_of_def installExtension_B_def defineTool_def)
  have n: "name (installExtension_B :: Extension list ToolDefinition) = ''install_extension''"
    by (simp add: installExtension_B_def defineTool_def)
  have h4: "name (installExtension_B :: Extension list ToolDefinition)
        \<notin> set (map name [openExtensionSidepanel_B :: Extension list ToolDefinition])"
    by (simp add: n openExtensionSidepanel_B_def defineTool_def)
  from gated_tool_indistinguishable [OF h1 h2 h3 h4,
      where rawParams = "[(''path'', JString ''/tmp/ext'')]" and ctx = scenario_context and c = "[]"]
    h1 h2 h3 h4
  show ?thesis by (simp add: n)
qed

text \<open>
  C6: when \<open>openExtensionSidepanel\<close> of the context succeeds, the finalized response of
  the \<open>EXTENSIONS\<close>-category \<open>open_extension_sidepanel\<close> has exactly the lines
  \<open>Sidepanel opened: url\<close>, the empty line and \<open>> note\<close>, in that order, and the
  include-pages flag is set.
\<close>

theorem sidepanel_A_success_lines:
  fixes ctx :: "'c ExecutionContext"
  assumes "ctx_openExtensionSidepanel ctx (get_prop params ''id'') c = (Inr result, c')"
  shows "execute openExtensionSidepanel_A params ctx c =
     (Success
        \<lparr>outLines =
           [''Sidepanel opened: '' @ result_url result, '''', ''> '' @ result_note result],
         outListExtensions = False,
         outIncludePages = True\<rparr>,
      c', [Call_openExtensionSidepanel (get_prop params ''id'')])
    \<and> category (annotations (openExtensionSidepanel_A :: 'c ToolDefinition)) = EXTENSIONS"
  using assms
  by (simp add: execute_def openExtensionSidepanel_A_def defineTool_def
      openExtensionSidepanel_handler_A_success builder_defs)

text \<open>
  The side panel of the installed extension \<open>abc123\<close>.
\<close>

theorem sidepanel_A_success_lines_witness:
  "ctx_openExtensionSidepanel scenario_context (get_prop [(''id'', JString ''abc123'')] ''id'')
     [\<lparr>ext_id = ''abc123'', ext_path = ''/tmp/ext''\<rparr>] =
     (Inr \<lparr>result_url = ''chrome-extension://abc123/panel.html'',
           result_note = ''Detached window'', result_windowId = JOther ''7''\<rparr>,
      [\<lparr>ext_id = ''abc123'', ext_path = ''/tmp/ext''\<rparr>])
   \<and> execute openExtensionSidepanel_A [(''id'', JString ''abc123'')] scenario_context
        [\<lparr>ext_id = ''abc123'', ext_path = ''/tmp/ext''\<rparr>] =
       (Success
          \<lparr>outLines = [''Sidepanel opened: chrome-extension://abc123/panel.html'', '''',
                       ''> Detached window''],
           outListExtensions = False, outIncludePages = True\<rparr>,
        [\<lparr>ext_id = ''abc123'', ext_path = ''/tmp/ext''\<rparr>],
        [Call_openExtensionSidepanel (JString ''abc123'')])"
proof -
  have h: "ctx_openExtensionSidepanel scenario_context
     (get_prop [(''id'', JString ''abc123'')] ''id'')
     [\<lparr>ext_id = ''abc123'', ext_path = ''/tmp/ext''\<rparr>] =
     (Inr \<lparr>result_url = ''chrome-extension://abc123/panel.html'',
           result_note = ''Detached window'', result_windowId = JOther ''7''\<rparr>,
      [\<lparr>ext_id = ''abc123'', ext_path = ''/tmp/ext''\<rparr>])"
    by (simp add: scenario_defs)
  have p: "get_prop [(''id'', JString ''abc123'')] ''id'' = JString ''abc123''"
    by (simp add: get_prop_def)
  from sidepanel_A_success_lines [OF h] h show ?thesis
    by (simp add: p)
qed




text \<open>
  C8: the two definitions of \<open>open_extension_sidepanel\<close> differ.  Their schemas declare
  the keys \<open>id\<close> and \<open>extensionId\<close>; their categories are \<open>EXTENSIONS\<close> and
  \<open>DEBUGGING\<close>; when the context call fails, the first handler throws the error on,
  with an untouched builder, and the dispatcher answers \<open>HandlerError\<close> with that error,
  while the second catches it: where line 241 has a message for it, the second returns
  normally with the failure lines in the builder, and where line 241 throws, the second
  ends with what the conversion threw, which is not the caught value.  So wherever the
  call fails for both, the two responses differ.
\<close>

theorem sidepanel_definitions_differ:
  fixes ctx :: "'c ExecutionContext"
  shows "map fst (schema (openExtensionSidepanel_A :: 'c ToolDefinition)) = [''id'']
       \<and> map fst (schema (openExtensionSidepanel_B :: 'c ToolDefinition)) = [''extensionId'']
       \<and> category (annotations (openExtensionSidepanel_A :: 'c ToolDefinition)) = EXTENSIONS
       \<and> category (annotations (openExtensionSidepanel_B :: 'c ToolDefinition)) = DEBUGGING
       \<and> (ctx_openExtensionSidepanel ctx (get_prop params ''id'') c = (Inl e, c') \<longrightarrow>
            handler openExtensionSidepanel_A params ctx
              \<lparr>response = fresh_builder, cstate = c, calls = []\<rparr> =
              (Inl e,
               \<lparr>response = fresh_builder, cstate = c',
                calls = [Call_openExtensionSidepanel (get_prop params ''id'')]\<rparr>)
          \<and> execute openExtensionSidepanel_A params ctx c =
              (HandlerError e, c', [Call_openExtensionSidepanel (get_prop params ''id'')]))
       \<and> (ctx_openExtensionSidepanel ctx (get_prop params ''extensionId'') c = (Inl e, c')
            \<and> error_message e = Inr m \<longrightarrow>
            handler openExtensionSidepanel_B params ctx
              \<lparr>response = fresh_builder, cstate = c, calls = []\<rparr> =
              (Inr (),
               \<lparr>response = \<lparr>textLines = sidepanel_failure_lines m,
                             listExtensionsFlag = False, includePagesFlag = False\<rparr>,
                cstate = c',
                calls = [Call_openExtensionSidepanel (get_prop params ''extensionId'')]\<rparr>)
          \<and> execute openExtensionSidepanel_B params ctx c =
              (Success \<lparr>outLines = sidepanel_failure_lines m,
                        outListExtensions = False, outIncludePages = False\<rparr>,
               c', [Call_openExtensionSidepanel (get_prop params ''extensionId'')]))
       \<and> (ctx_openExtensionSidepanel ctx (get_prop params ''extensionId'') c
            = (Inl (ThrownNoString t), c') \<longrightarrow>
            handler openExtensionSidepanel_B params ctx
              \<lparr>response = fresh_builder, cstate = c, calls = []\<rparr> =
              (Inl t,
               \<lparr>response = fresh_builder, cstate = c',
                calls = [Call_openExtensionSidepanel (get_prop params ''extensionId'')]\<rparr>)
          \<and> execute openExtensionSidepanel_B params ctx c =
              (HandlerError t, c',
               [Call_openExtensionSidepanel (get_prop params ''extensionId'')]))
       \<and> (error_message (ErrorObj m) = Inr m \<and> error_message (ThrownVal v) = Inr (js_String v))
       \<and> (ctx_openExtensionSidepanel ctx (get_prop params ''id'') c = (Inl e, c')
            \<and> ctx_openExtensionSidepanel ctx (get_prop params ''extensionId'') c = (Inl e, c') \<longrightarrow>
            execute openExtensionSidepanel_A params ctx c \<noteq>
            execute openExtensionSidepanel_B params ctx c)"
proof -
  have ta:
    "category (annotations (openExtensionSidepanel_A :: 'c ToolDefinition)) = EXTENSIONS"
    "map fst (schema (openExtensionSidepanel_A :: 'c ToolDefinition)) = [''id'']"
    by (simp_all add: openExtensionSidepanel_A_def defineTool_def)
  have tb:
    "category (annotations (openExtensionSidepanel_B :: 'c ToolDefinition)) = DEBUGGING"
    "map fst (schema (openExtensionSidepanel_B :: 'c ToolDefinition)) = [''extensionId'']"
    by (simp_all add: openExtensionSidepanel_B_def defineTool_def)
  have a: "ctx_openExtensionSidepanel ctx (get_prop params ''id'') c = (Inl e, c') \<Longrightarrow>
      handler openExtensionSidepanel_A params ctx
        \<lparr>response = fresh_builder, cstate = c, calls = []\<rparr> =
        (Inl e,
         \<lparr>response = fresh_builder, cstate = c',
          calls = [Call_openExtensionSidepanel (get_prop params ''id'')]\<rparr>)
      \<and> execute openExtensionSidepanel_A params ctx c =
          (HandlerError e, c', [Call_openExtensionSidepanel (get_prop params ''id'')])"
    by (simp add: sidepanel_A_handler_fresh_failure execute_sidepanel_A_failure)
  have b: "ctx_openExtensionSidepanel ctx (get_prop params ''extensionId'') c = (Inl e, c')
      \<and> error_message e = Inr m \<Longrightarrow>
      handler openExtensionSidepanel_B params ctx
        \<lparr>response = fresh_builder, cstate = c, calls = []\<rparr> =
        (Inr (),
         \<lparr>response = \<lparr>textLines = sidepanel_failure_lines m,
                       listExtensionsFlag = False, includePagesFlag = False\<rparr>,
          cstate = c',
          calls = [Call_openExtensionSidepanel (get_prop params ''extensionId'')]\<rparr>)
      \<and> execute openExtensionSidepanel_B params ctx c =
          (Success \<lparr>outLines = sidepanel_failure_lines m,
                    outListExtensions = False, outIncludePages = False\<rparr>,
           c', [Call_openExtensionSidepanel (get_prop params ''extensionId'')])"
    by (simp add: sidepanel_B_handler_fresh_failure execute_sidepanel_B_failure)
  have r: "ctx_openExtensionSidepanel ctx (get_prop params ''extensionId'') c
        = (Inl (ThrownNoString t), c') \<Longrightarrow>
      handler openExtensionSidepanel_B params ctx
        \<lparr>response = fresh_builder, cstate = c, calls = []\<rparr> =
        (Inl t,
         \<lparr>response = fresh_builder, cstate = c',
          calls = [Call_openExtensionSidepanel (get_prop params ''extensionId'')]\<rparr>)
      \<and> execute openExtensionSidepanel_B params ctx c =
          (HandlerError t, c',
           [Call_openExtensionSidepanel (get_prop params ''extensionId'')])"
    by (simp add: sidepanel_B_handler_fresh_failure execute_sidepanel_B_failure)
  have d: "ctx_openExtensionSidepanel ctx (get_prop params ''id'') c = (Inl e, c')
      \<and> ctx_openExtensionSidepanel ctx (get_prop params ''extensionId'') c = (Inl e, c') \<Longrightarrow>
      execute openExtensionSidepanel_A params ctx c \<noteq>
      execute openExtensionSidepanel_B params ctx c"
  proof (cases "error_message e")
    case (Inl u)
    then have "e = ThrownNoString u" by (simp add: error_message_Inl)
    moreover assume "ctx_openExtensionSidepanel ctx (get_prop params ''id'') c = (Inl e, c')
      \<and> ctx_openExtensionSidepanel ctx (get_prop params ''extensionId'') c = (Inl e, c')"
    ultimately show ?thesis
      by (simp add: execute_sidepanel_A_failure execute_sidepanel_B_failure ThrownNoString_neq)
  next
    case (Inr u)
    moreover assume "ctx_openExtensionSidepanel ctx (get_prop params ''id'') c = (Inl e, c')
      \<and> ctx_openExtensionSidepanel ctx (get_prop params ''extensionId'') c = (Inl e, c')"
    ultimately show ?thesis
      by (simp add: execute_sidepanel_A_failure execute_sidepanel_B_failure)
  qed
  have m: "error_message (ErrorObj m) = Inr m \<and> error_message (ThrownVal v) = Inr (js_String v)"
    by simp
  from ta tb a b r d m show ?thesis
    by blast
qed

text \<open>One payload with both keys, against a context with nothing installed.\<close>

theorem sidepanel_definitions_differ_witness:
  "ctx_openExtensionSidepanel scenario_context
     (get_prop [(''id'', JString ''x''), (''extensionId'', JString ''x'')] ''id'') [] =
     (Inl (ErrorObj ''No service worker''), [])
   \<and> ctx_openExtensionSidepanel scenario_context
     (get_prop [(''id'', JString ''x''), (''extensionId'', JString ''x'')] ''extensionId'') [] =
     (Inl (ErrorObj ''No service worker''), [])
   \<and> error_message (ErrorObj ''No service worker'') = Inr ''No service worker''
   \<and> execute openExtensionSidepanel_A [(''id'', JString ''x''), (''extensionId'', JString ''x'')]
        scenario_context [] =
       (HandlerError (ErrorObj ''No service worker''), [],
        [Call_openExtensionSidepanel (JString ''x'')])
   \<and> execute openExtensionSidepanel_B [(''id'', JString ''x''), (''extensionId'', JString ''x'')]
        scenario_context [] =
       (Success \<lparr>outLines = sidepanel_failure_lines ''No service worker'',
                 outListExtensions = False, outIncludePages = False\<rparr>, [],
        [Call_openExtensionSidepanel (JString ''x'')])
   \<and> execute openExtensionSidepanel_A [(''id'', JString ''x''), (''extensionId'', JString ''x'')]
        scenario_context [] \<noteq>
       execute openExtensionSidepanel_B [(''id'', JString ''x''), (''extensionId'', JString ''x'')]
        scenario_context []"
proof -
  let ?p = "[(''id'', JString ''x''), (''extensionId'', JString ''x'')]"
  have h1: "ctx_openExtensionSidepanel scenario_context (get_prop ?p ''id'') [] =
     (Inl (ErrorObj ''No service worker''), [])"
    by (simp add: scenario_defs)
  have h2: "ctx_openExtensionSidepanel scenario_context (get_prop ?p ''extensionId'') [] =
     (Inl (ErrorObj ''No service worker''), [])"
    by (simp add: scenario_defs)
  have p: "get_prop ?p ''id'' = JString ''x''" "get_prop ?p ''extensionId'' = JString ''x''"
    by (simp_all add: get_prop_def)
  from sidepanel_definitions_differ
         [where ctx = scenario_context and params = ?p and c = "[]" and c' = "[]"
            and e = "ErrorObj ''No service worker''" and m = "''No service worker''"]
       h1 h2
  show ?thesis
    by (simp add: p)
qed

text \<open>
  C10: when \<open>getExtension\<close> gives a record for the id, \<open>reload_extension\<close> calls
  \<open>installExtension\<close> exactly once, with the path stored in the record, after the one
  call to \<open>getExtension\<close>; if that call succeeds, the finalized response is the one line
  \<open>Extension reloaded.\<close>, and if it fails the failure becomes a \<open>HandlerError\<close>.
\<close>

theorem reload_installs_stored_path:
  fixes ctx :: "'c ExecutionContext"
  assumes "ctx_getExtension ctx (get_prop params ''id'') c = (Inr (Some ext), c1)"
    and "ctx_installExtension ctx (JString (ext_path ext)) c1 = (r, c2)"
  shows "execute reloadExtension_A params ctx c =
           ((case r of
               Inl e \<Rightarrow> HandlerError e
             | Inr ident \<Rightarrow>
                 Success \<lparr>outLines = [''Extension reloaded.''],
                          outListExtensions = False, outIncludePages = False\<rparr>),
            c2,
            [Call_getExtension (get_prop params ''id''),
             Call_installExtension (JString (ext_path ext))])
       \<and> execute reloadExtension_B params ctx c = execute reloadExtension_A params ctx c
       \<and> installExtension_calls (snd (snd (execute reloadExtension_A params ctx c))) =
           [JString (ext_path ext)]"
proof -
  have h: "reloadExtension_handler params ctx
             \<lparr>response = fresh_builder, cstate = c, calls = []\<rparr> =
     (case r of
        Inl e \<Rightarrow>
          (Inl e,
           \<lparr>response = fresh_builder, cstate = c2,
            calls = [Call_getExtension (get_prop params ''id''),
                     Call_installExtension (JString (ext_path ext))]\<rparr>)
      | Inr ident \<Rightarrow>
          (Inr (),
           \<lparr>response = \<lparr>textLines = [''Extension reloaded.''],
                         listExtensionsFlag = False, includePagesFlag = False\<rparr>,
            cstate = c2,
            calls = [Call_getExtension (get_prop params ''id''),
                     Call_installExtension (JString (ext_path ext))]\<rparr>))"
    using assms
    by (simp add: reloadExtension_handler_present [where ?c1.0 = c1 and ?c2.0 = c2 and r = r and ext = ext]
        fresh_builder_def split: sum.splits)
  have ea: "execute reloadExtension_A params ctx c =
           ((case r of
               Inl e \<Rightarrow> HandlerError e
             | Inr ident \<Rightarrow>
                 Success \<lparr>outLines = [''Extension reloaded.''],
                          outListExtensions = False, outIncludePages = False\<rparr>),
            c2,
            [Call_getExtension (get_prop params ''id''),
             Call_installExtension (JString (ext_path ext))])"
    by (simp add: execute_def reloadExtension_A_def defineTool_def h finalize_def
        split: sum.splits)
  have eb: "execute reloadExtension_B params ctx c = execute reloadExtension_A params ctx c"
    by (simp add: execute_def reloadExtension_A_def reloadExtension_B_def defineTool_def)
  show ?thesis
    by (simp add: ea eb)
qed

text \<open>
  Reloading the installed extension \<open>abc123\<close>, stored with the path \<open>/tmp/ext\<close>.
\<close>

theorem reload_installs_stored_path_witness:
  "ctx_getExtension scenario_context (get_prop [(''id'', JString ''abc123'')] ''id'')
     [\<lparr>ext_id = ''abc123'', ext_path = ''/tmp/ext''\<rparr>] =
     (Inr (Some \<lparr>ext_id = ''abc123'', ext_path = ''/tmp/ext''\<rparr>),
      [\<lparr>ext_id = ''abc123'', ext_path = ''/tmp/ext''\<rparr>])
   \<and> ctx_installExtension scenario_context
       (JString (ext_path \<lparr>ext_id = ''abc123'', ext_path = ''/tmp/ext''\<rparr>))
       [\<lparr>ext_id = ''abc123'', ext_path = ''/tmp/ext''\<rparr>] =
     (Inr ''abc123'',
      [\<lparr>ext_id = ''abc123'', ext_path = ''/tmp/ext''\<rparr>,
       \<lparr>ext_id = ''abc123'', ext_path = ''/tmp/ext''\<rparr>])
   \<and> execute reloadExtension_A [(''id'', JString ''abc123'')] scenario_context
        [\<lparr>ext_id = ''abc123'', ext_path = ''/tmp/ext''\<rparr>] =
       (Success \<lparr>outLines = [''Extension reloaded.''],
                 outListExtensions = False, outIncludePages = False\<rparr>,
        [\<lparr>ext_id = ''abc123'', ext_path = ''/tmp/ext''\<rparr>,
         \<lparr>ext_id = ''abc123'', ext_path = ''/tmp/ext''\<rparr>],
        [Call_getExtension (JString ''abc123''), Call_installExtension (JString ''/tmp/ext'')])"
proof -
  let ?e = "\<lparr>ext_id = ''abc123'', ext_path = ''/tmp/ext''\<rparr>"
  have h1: "ctx_getExtension scenario_context (get_prop [(''id'', JString ''abc123'')] ''id'') [?e]
      = (Inr (Some ?e), [?e])"
    by (simp add: scenario_defs)
  have h2: "ctx_installExtension scenario_context (JString (ext_path ?e)) [?e] =
      (Inr ''abc123'', [?e, ?e])"
    by (simp add: scenario_defs)
  have p: "get_prop [(''id'', JString ''abc123'')] ''id'' = JString ''abc123''"
    by (simp add: get_prop_def)
  from reload_installs_stored_path [OF h1 h2] h1 h2 show ?thesis
    by (simp add: p)
qed

text \<open>
  C9: the handler of \<open>list_extensions\<close>, the same in both versions, returns normally
  with the state it was given except for the list-extensions flag: no context call is
  logged, the context state, the text lines and the include-pages flag are as before.
\<close>

theorem list_extensions_only_sets_flag:
  fixes s :: "'c hstate"
  shows "handler listExtensions_A params ctx s =
           (Inr (), s\<lparr>response := (response s)\<lparr>listExtensionsFlag := True\<rparr>\<rparr>)
       \<and> handler listExtensions_B params ctx s =
           (Inr (), s\<lparr>response := (response s)\<lparr>listExtensionsFlag := True\<rparr>\<rparr>)
       \<and> calls (snd (handler listExtensions_A params ctx s)) = calls s
       \<and> cstate (snd (handler listExtensions_A params ctx s)) = cstate s
       \<and> textLines (response (snd (handler listExtensions_A params ctx s)))
           = textLines (response s)
       \<and> includePagesFlag (response (snd (handler listExtensions_A params ctx s)))
           = includePagesFlag (response s)
       \<and> listExtensionsFlag (response (snd (handler listExtensions_A params ctx s)))
       \<and> execute listExtensions_A params ctx c =
           (Success \<lparr>outLines = [], outListExtensions = True, outIncludePages = False\<rparr>, c, [])
       \<and> execute listExtensions_B params ctx c =
           (Success \<lparr>outLines = [], outListExtensions = True, outIncludePages = False\<rparr>, c, [])"
proof -
  have a: "handler (listExtensions_A :: 'c ToolDefinition) = listExtensions_handler"
    by (simp add: listExtensions_A_def defineTool_def)
  have b: "handler (listExtensions_B :: 'c ToolDefinition) = listExtensions_handler"
    by (simp add: listExtensions_B_def defineTool_def)
  show ?thesis
    by (simp add: a b execute_def listExtensions_handler_result fresh_builder_def finalize_def)
qed

end
